theory Spec2Isabelle
  imports Complex_Main
begin

section \<open>Twitter sentiment analysis pipeline (main.py)\<close>

text \<open>
  A shallow embedding of \<^verbatim>\<open>src/main.py\<close>. The program is a linear pipeline:
  authenticate, fetch, score and assemble, export to CSV, summarise, publish to S3.

  Modelling decisions.
  \<^item> A Python float is the real number it denotes (\<^typ>\<open>real\<close>), and comparisons of
    floats are exact. \<^verbatim>\<open>round(x, 3)\<close> is the decimal the program stores and exports:
    the nearest multiple of \<open>1/1000\<close>, ties to even. What \<^verbatim>\<open>+\<close>, \<^verbatim>\<open>/\<close> and \<^verbatim>\<open>*\<close>
    give on floats is not computed: the three operations are parameters of the model, so
    that nothing proved here depends on how a float operation rounds.
  \<^item> Python strings are \<^typ>\<open>string\<close>; the line feed is \<open>CHR 0x0A\<close> and the
    carriage return is \<open>CHR 0x0D\<close>.
  \<^item> The external collaborators (tweepy, TextBlob, the file system, boto3, the clock)
    are the fields of an environment record: what each call answers in a given run.
  \<^item> Every \<^verbatim>\<open>raise\<close> that is not caught is a value \<open>Inl e\<close> of a sum type.
  \<^item> Every \<^verbatim>\<open>print\<close> that reports the outcome of a stage is an event of the
    run's output; the decorative banner and step headings are left out.
  \<^item> The module constants \<^verbatim>\<open>BEARER_TOKEN\<close>, \<^verbatim>\<open>AWS_BUCKET_NAME\<close>,
    \<^verbatim>\<open>SEARCH_KEYWORD\<close> and \<^verbatim>\<open>TWEET_COUNT\<close> are the fields of a configuration record,
    since the source asks the operator to replace them.
\<close>

subsection \<open>Errors\<close>

datatype py_error =
    KeyError string
  | ZeroDivisionError
  | ExternalError string

subsection \<open>Posts as the provider returns them\<close>

text \<open>
  A tweepy \<^verbatim>\<open>Tweet\<close> with the attributes the program reads: \<^verbatim>\<open>id\<close>, \<^verbatim>\<open>text\<close>,
  \<^verbatim>\<open>created_at\<close> and \<^verbatim>\<open>public_metrics\<close> (a dict, or \<^verbatim>\<open>None\<close>). The timestamp is passed
  through untouched, so its type is a parameter.
\<close>

record 'ts tweet =
  tw_id :: int
  tw_text :: string
  tw_created_at :: 'ts
  tw_public_metrics :: "(string \<times> int) list option"

subsection \<open>Sentiment scorer\<close>

text \<open>
  \<^verbatim>\<open>analyze_sentiment\<close> (lines 54-67). The first argument stands for
  \<^verbatim>\<open>TextBlob(tweet_text).sentiment.polarity\<close>.
\<close>

definition analyze_sentiment :: "(string \<Rightarrow> real) \<Rightarrow> string \<Rightarrow> string \<times> real" where
  "analyze_sentiment textblob_polarity tweet_text =
     (let polarity = textblob_polarity tweet_text;
          sentiment =
            (if polarity > 0 then ''positive''
             else if polarity < 0 then ''negative''
             else ''neutral'')
      in (sentiment, polarity))"

subsection \<open>Record assembler\<close>

text \<open>\<^verbatim>\<open>s.replace(old, new)\<close> for one-character \<^verbatim>\<open>old\<close> and \<^verbatim>\<open>new\<close>.\<close>

definition replace_char :: "char \<Rightarrow> char \<Rightarrow> string \<Rightarrow> string" where
  "replace_char old new s = map (\<lambda>c. if c = old then new else c) s"

text \<open>Line 75: \<^verbatim>\<open>tweet.text.replace('\n', ' ').replace('\r', ' ')\<close>.\<close>

definition clean_text :: "string \<Rightarrow> string" where
  "clean_text s = replace_char (CHR 0x0D) (CHR '' '') (replace_char (CHR 0x0A) (CHR '' '') s)"

text \<open>Python's \<^verbatim>\<open>round\<close>: to the nearest integer, a tie to the even neighbour.\<close>

definition round_half_even :: "real \<Rightarrow> int" where
  "round_half_even x =
     (let f = \<lfloor>x\<rfloor>; d = x - of_int f
      in if d < 1 / 2 then f
         else if d > 1 / 2 then f + 1
         else if even f then f else f + 1)"

definition py_round :: "real \<Rightarrow> nat \<Rightarrow> real" where
  "py_round x ndigits = of_int (round_half_even (x * 10 ^ ndigits)) / 10 ^ ndigits"

text \<open>\<^verbatim>\<open>d[k]\<close> on a dict: the value, or \<^verbatim>\<open>KeyError\<close>.\<close>

definition getitem :: "(string \<times> 'v) list \<Rightarrow> string \<Rightarrow> py_error + 'v" where
  "getitem d k = (case map_of d k of None \<Rightarrow> Inl (KeyError k) | Some v \<Rightarrow> Inr v)"

text \<open>
  Lines 87-88: \<^verbatim>\<open>tweet.public_metrics[k] if tweet.public_metrics else 0\<close>. \<^verbatim>\<open>None\<close> and the
  empty dict are falsy.
\<close>

definition metric_or_zero :: "(string \<times> int) list option \<Rightarrow> string \<Rightarrow> py_error + int" where
  "metric_or_zero pm k =
     (case pm of
        None \<Rightarrow> Inr 0
      | Some d \<Rightarrow> if d = [] then Inr 0 else getitem d k)"

text \<open>
  The dict \<^verbatim>\<open>tweet_data\<close> of lines 81-89 has seven fixed keys; it is a record here. The
  key \<^verbatim>\<open>text\<close> is the field \<open>text_col\<close>.
\<close>

record 'ts analyzed =
  tweet_id :: int
  text_col :: string
  created_at :: 'ts
  sentiment :: string
  polarity_score :: real
  retweet_count :: int
  like_count :: int

text \<open>
  The body of the loop of \<^verbatim>\<open>process_tweets\<close> up to the dict display (lines 75-89): the
  record and the unrounded polarity, which line 92 prints. The dict display evaluates its
  values in order, so a missing \<^verbatim>\<open>retweet_count\<close> is reported before a missing
  \<^verbatim>\<open>like_count\<close>.
\<close>

definition tweet_data :: "(string \<Rightarrow> real) \<Rightarrow> 'ts tweet \<Rightarrow> py_error + ('ts analyzed \<times> real)" where
  "tweet_data textblob_polarity tweet =
     (let clean = clean_text (tw_text tweet);
          (sent, polarity) = analyze_sentiment textblob_polarity clean
      in case metric_or_zero (tw_public_metrics tweet) ''retweet_count'' of
           Inl e \<Rightarrow> Inl e
         | Inr rc \<Rightarrow>
             (case metric_or_zero (tw_public_metrics tweet) ''like_count'' of
                Inl e \<Rightarrow> Inl e
              | Inr lc \<Rightarrow>
                  Inr (\<lparr>tweet_id = tw_id tweet,
                        text_col = clean,
                        created_at = tw_created_at tweet,
                        sentiment = sent,
                        polarity_score = py_round polarity 3,
                        retweet_count = rc,
                        like_count = lc\<rparr>, polarity)))"

subsection \<open>Console output\<close>

record summary =
  total_tweets :: nat
  keyword :: string
  distribution :: "(string \<times> nat \<times> real \<times> nat) list"
  avg_polarity :: real
  overall :: string

datatype event =
    Connected
  | ConnectError
  | Fetched nat
  | NoTweetsFound
  | FetchError py_error
  | TweetLine nat string real
  | Saved string
  | SaveError
  | NoResults
  | SummaryReport summary
  | Uploaded string string
  | UploadError
  | UploadSkipped
  | Complete string

text \<open>
  \<^verbatim>\<open>process_tweets\<close> (lines 69-94): the loop over \<^verbatim>\<open>enumerate(tweets, 1)\<close> with the list
  \<^verbatim>\<open>results\<close> and the console output as accumulators. An exception leaves the loop and
  the function.
\<close>

fun process_loop ::
  "(string \<Rightarrow> real) \<Rightarrow> nat \<Rightarrow> 'ts tweet list \<Rightarrow> 'ts analyzed list \<Rightarrow> event list
     \<Rightarrow> event list \<times> (py_error + 'ts analyzed list)" where
  "process_loop sc i [] results out = (out, Inr results)"
| "process_loop sc i (tweet # rest) results out =
     (case tweet_data sc tweet of
        Inl e \<Rightarrow> (out, Inl e)
      | Inr (td, polarity) \<Rightarrow>
          process_loop sc (i + 1) rest (results @ [td])
            (out @ [TweetLine i (sentiment td) polarity]))"

definition process_tweets ::
  "(string \<Rightarrow> real) \<Rightarrow> 'ts tweet list \<Rightarrow> event list \<times> (py_error + 'ts analyzed list)" where
  "process_tweets sc tweets = process_loop sc 1 tweets [] []"

subsection \<open>Tabular exporter\<close>

text \<open>A value handed to the CSV writer, and a written file as its lines of cells.\<close>

datatype 'ts cell = IntCell int | StrCell string | FloatCell real | TimeCell 'ts

type_synonym 'ts csv = "'ts cell list list"

record 'ts world =
  files :: "string \<rightharpoonup> 'ts csv"
  s3 :: "(string \<times> string) \<rightharpoonup> 'ts csv"

text \<open>Lines 100-101.\<close>

definition headers :: "string list" where
  "headers = [''tweet_id'', ''text'', ''created_at'', ''sentiment'',
              ''polarity_score'', ''retweet_count'', ''like_count'']"

text \<open>\<^verbatim>\<open>rowdict.get(key)\<close> on the dict of lines 81-89.\<close>

definition dict_get :: "'ts analyzed \<Rightarrow> string \<Rightarrow> 'ts cell option" where
  "dict_get r k =
     (if k = ''tweet_id'' then Some (IntCell (tweet_id r))
      else if k = ''text'' then Some (StrCell (text_col r))
      else if k = ''created_at'' then Some (TimeCell (created_at r))
      else if k = ''sentiment'' then Some (StrCell (sentiment r))
      else if k = ''polarity_score'' then Some (FloatCell (polarity_score r))
      else if k = ''retweet_count'' then Some (IntCell (retweet_count r))
      else if k = ''like_count'' then Some (IntCell (like_count r))
      else None)"

text \<open>
  \<^verbatim>\<open>csv.DictWriter.writerow\<close>: the values under the field names, in the order of the
  field names; a missing key gives the empty string.
\<close>

definition writerow :: "'ts analyzed \<Rightarrow> 'ts cell list" where
  "writerow r = map (\<lambda>k. case dict_get r k of Some c \<Rightarrow> c | None \<Rightarrow> StrCell []) headers"

text \<open>
  What the file system does to the write of lines 104-107: nothing wrong, \<^verbatim>\<open>open\<close>
  raises, or a write raises once \<open>k\<close> lines are in the file.
\<close>

datatype io_fault = NoFault | OpenFails | WriteFailsAfter nat

text \<open>\<^verbatim>\<open>save_to_csv\<close> (lines 96-114). Mode \<^verbatim>\<open>'w'\<close> replaces the file.\<close>

definition save_to_csv ::
  "io_fault \<Rightarrow> 'ts analyzed list \<Rightarrow> string \<Rightarrow> 'ts world \<Rightarrow> event list \<times> bool \<times> 'ts world" where
  "save_to_csv fault results filename w =
     (let content = map StrCell headers # map writerow results
      in case fault of
           NoFault \<Rightarrow>
             ([Saved filename], True, w\<lparr>files := (files w)(filename \<mapsto> content)\<rparr>)
         | OpenFails \<Rightarrow> ([SaveError], False, w)
         | WriteFailsAfter k \<Rightarrow>
             ([SaveError], False, w\<lparr>files := (files w)(filename \<mapsto> take k content)\<rparr>))"

subsection \<open>Summary reporter\<close>

text \<open>
  The float arithmetic of the interpreter: the results of \<^verbatim>\<open>a + b\<close>, \<^verbatim>\<open>a / b\<close> (for a
  non-zero \<open>b\<close>) and \<^verbatim>\<open>a * b\<close> when an operand is a float.
\<close>

record float_ops =
  f_add :: "real \<Rightarrow> real \<Rightarrow> real"
  f_div :: "real \<Rightarrow> real \<Rightarrow> real"
  f_mul :: "real \<Rightarrow> real \<Rightarrow> real"

text \<open>Python's \<^verbatim>\<open>a / b\<close>: a zero divisor raises.\<close>

definition truediv :: "float_ops \<Rightarrow> real \<Rightarrow> real \<Rightarrow> py_error + real" where
  "truediv fl a b = (if b = 0 then Inl ZeroDivisionError else Inr (f_div fl a b))"

text \<open>The float that the literal \<^verbatim>\<open>0.1\<close> of lines 167 and 169 denotes.\<close>

definition float_tenth :: real where
  "float_tenth = 3602879701896397 / 36028797018963968"

text \<open>Python's \<^verbatim>\<open>int(x)\<close> on a float: truncation towards zero.\<close>

definition py_int :: "real \<Rightarrow> int" where
  "py_int x = (if 0 \<le> x then \<lfloor>x\<rfloor> else \<lceil>x\<rceil>)"

text \<open>Line 146: \<^verbatim>\<open>sentiment_counts[k] += 1\<close> reads the key first.\<close>

definition incr_count :: "(string \<times> nat) list \<Rightarrow> string \<Rightarrow> py_error + (string \<times> nat) list" where
  "incr_count counts k =
     (case getitem counts k of
        Inl e \<Rightarrow> Inl e
      | Inr c \<Rightarrow> Inr (map (\<lambda>(k', c'). if k' = k then (k', c + 1) else (k', c')) counts))"

text \<open>The loop of lines 145-147.\<close>

fun count_loop ::
  "float_ops \<Rightarrow> 'ts analyzed list \<Rightarrow> (string \<times> nat) list \<Rightarrow> real
     \<Rightarrow> py_error + ((string \<times> nat) list \<times> real)" where
  "count_loop fl [] counts total_polarity = Inr (counts, total_polarity)"
| "count_loop fl (r # rest) counts total_polarity =
     (case incr_count counts (sentiment r) of
        Inl e \<Rightarrow> Inl e
      | Inr counts' \<Rightarrow> count_loop fl rest counts' (f_add fl total_polarity (polarity_score r)))"

text \<open>
  The loop of lines 159-162: label, count, percentage and the length of the bar
  (\<^verbatim>\<open>'#' * n\<close> is empty for a negative \<open>n\<close>).
\<close>

fun dist_loop ::
  "float_ops \<Rightarrow> (string \<times> nat) list \<Rightarrow> nat
     \<Rightarrow> py_error + (string \<times> nat \<times> real \<times> nat) list" where
  "dist_loop fl [] n = Inr []"
| "dist_loop fl ((s, c) # rest) n =
     (case truediv fl (real c) (real n) of
        Inl e \<Rightarrow> Inl e
      | Inr q \<Rightarrow>
          (let percentage = f_mul fl q 100;
               bar = nat (py_int (f_div fl percentage 5))
           in case dist_loop fl rest n of
                Inl e \<Rightarrow> Inl e
              | Inr ds \<Rightarrow> Inr ((s, c, percentage, bar) # ds)))"

text \<open>
  \<^verbatim>\<open>generate_summary\<close> (lines 135-175); the first argument is the float arithmetic, the
  second the module constant \<^verbatim>\<open>SEARCH_KEYWORD\<close>. The report is one event.
\<close>

definition generate_summary ::
  "float_ops \<Rightarrow> string \<Rightarrow> 'ts analyzed list \<Rightarrow> py_error + event list" where
  "generate_summary fl kw results =
     (if results = [] then Inr [NoResults]
      else
        case count_loop fl results [(''positive'', 0), (''negative'', 0), (''neutral'', 0)] 0 of
          Inl e \<Rightarrow> Inl e
        | Inr (sentiment_counts, total_polarity) \<Rightarrow>
            (let n = length results
             in case dist_loop fl sentiment_counts n of
                  Inl e \<Rightarrow> Inl e
                | Inr shares \<Rightarrow>
                    (case truediv fl total_polarity (real n) of
                       Inl e \<Rightarrow> Inl e
                     | Inr avg \<Rightarrow>
                         Inr [SummaryReport
                               \<lparr>total_tweets = n,
                                keyword = kw,
                                distribution = shares,
                                avg_polarity = avg,
                                overall =
                                  (if avg > float_tenth then ''POSITIVE''
                                   else if avg < - float_tenth then ''NEGATIVE''
                                   else ''NEUTRAL'')\<rparr>])))"

subsection \<open>Configuration and environment\<close>

record config =
  bearer_token :: string
  aws_bucket_name :: string
  search_keyword :: string
  tweet_count :: nat

text \<open>Lines 15-18.\<close>

definition default_config :: config where
  "default_config =
     \<lparr>bearer_token = ''YOUR_BEARER_TOKEN'',
      aws_bucket_name = ''YOUR_BUCKET_NAME'',
      search_keyword = ''AWS'',
      tweet_count = 10\<rparr>"

text \<open>
  What the outside world answers in one run: whether \<^verbatim>\<open>tweepy.Client\<close> raises, what
  \<^verbatim>\<open>search_recent_tweets\<close> raises or returns as \<^verbatim>\<open>.data\<close>, TextBlob's polarity, the fault of
  the file system, whether boto3 raises, \<^verbatim>\<open>datetime.now().strftime(...)\<close>, and the float
  arithmetic the summary is computed with.
\<close>

record 'ts env =
  client_raises :: bool
  search_recent_tweets :: "string \<Rightarrow> nat \<Rightarrow> py_error + 'ts tweet list option"
  textblob :: "string \<Rightarrow> real"
  csv_fault :: io_fault
  s3_raises :: bool
  now_stamp :: string
  arith :: float_ops

subsection \<open>Source client\<close>

text \<open>\<^verbatim>\<open>authenticate_twitter\<close> (lines 20-28); the client object carries nothing.\<close>

definition authenticate_twitter :: "'ts env \<Rightarrow> event list \<times> unit option" where
  "authenticate_twitter env =
     (if client_raises env then ([ConnectError], None) else ([Connected], Some ()))"

text \<open>\<^verbatim>\<open>fetch_tweets\<close> (lines 30-52); \<^verbatim>\<open>None\<close> and the empty list are falsy.\<close>

definition fetch_tweets :: "'ts env \<Rightarrow> unit \<Rightarrow> string \<Rightarrow> nat \<Rightarrow> event list \<times> 'ts tweet list" where
  "fetch_tweets env client kw count =
     (let query = kw @ '' lang:en -is:retweet''
      in case search_recent_tweets env query count of
           Inl e \<Rightarrow> ([FetchError e], [])
         | Inr data \<Rightarrow>
             (case data of
                None \<Rightarrow> ([NoTweetsFound], [])
              | Some [] \<Rightarrow> ([NoTweetsFound], [])
              | Some (t # ts) \<Rightarrow> ([Fetched (length (t # ts))], t # ts)))"

subsection \<open>Artifact publisher\<close>

text \<open>
  \<^verbatim>\<open>upload_to_s3\<close> (lines 116-133). \<^verbatim>\<open>upload_file\<close> also raises when the local file does
  not exist. Every exception is caught.
\<close>

definition upload_to_s3 :: "'ts env \<Rightarrow> string \<Rightarrow> string \<Rightarrow> 'ts world \<Rightarrow> event list \<times> bool \<times> 'ts world" where
  "upload_to_s3 env filename bucket_name w =
     (if s3_raises env then ([UploadError], False, w)
      else
        case files w filename of
          None \<Rightarrow> ([UploadError], False, w)
        | Some content \<Rightarrow>
            (let s3_key = ''sentiment_analysis/'' @ now_stamp env @ ''_'' @ filename
             in ([Uploaded bucket_name s3_key], True,
                 w\<lparr>s3 := (s3 w)((bucket_name, s3_key) \<mapsto> content)\<rparr>)))"

subsection \<open>The pipeline\<close>

text \<open>The four places where \<^verbatim>\<open>main\<close> returns: lines 186, 192, 202 and the end, 216.\<close>

datatype exit = ReturnAfterAuth | ReturnAfterFetch | ReturnAfterExport | ReturnComplete

record 'ts run =
  final :: "'ts world"
  printed :: "event list"
  outcome :: "py_error + exit"

definition csv_filename :: string where
  "csv_filename = ''tweet_sentiments.csv''"

text \<open>
  \<^verbatim>\<open>main\<close> (lines 177-216). An exception of \<^verbatim>\<open>process_tweets\<close> or \<^verbatim>\<open>generate_summary\<close> is not
  caught and ends the run.
\<close>

definition main :: "config \<Rightarrow> 'ts env \<Rightarrow> 'ts world \<Rightarrow> 'ts run" where
  "main cfg env w =
     (let (out1, client) = authenticate_twitter env
      in case client of
           None \<Rightarrow> \<lparr>final = w, printed = out1, outcome = Inr ReturnAfterAuth\<rparr>
         | Some c \<Rightarrow>
             (let (out2, tweets) = fetch_tweets env c (search_keyword cfg) (tweet_count cfg)
              in if tweets = []
                 then \<lparr>final = w, printed = out1 @ out2, outcome = Inr ReturnAfterFetch\<rparr>
                 else
                   (let (out3, r) = process_tweets (textblob env) tweets
                    in case r of
                         Inl e \<Rightarrow> \<lparr>final = w, printed = out1 @ out2 @ out3, outcome = Inl e\<rparr>
                       | Inr results \<Rightarrow>
                           (let (out4, ok, w4) = save_to_csv (csv_fault env) results csv_filename w
                            in if \<not> ok
                               then \<lparr>final = w4, printed = out1 @ out2 @ out3 @ out4,
                                      outcome = Inr ReturnAfterExport\<rparr>
                               else
                                 (case generate_summary (arith env) (search_keyword cfg) results of
                                    Inl e \<Rightarrow>
                                      \<lparr>final = w4, printed = out1 @ out2 @ out3 @ out4,
                                       outcome = Inl e\<rparr>
                                  | Inr out5 \<Rightarrow>
                                      (let (out6, w6) =
                                             (if aws_bucket_name cfg \<noteq> ''YOUR_BUCKET_NAME''
                                              then
                                                (let (up_out, up_ok, w') =
                                                       upload_to_s3 env csv_filename
                                                         (aws_bucket_name cfg) w4
                                                 in (up_out, w'))
                                              else ([UploadSkipped], w4))
                                       in \<lparr>final = w6,
                                            printed = out1 @ out2 @ out3 @ out4 @ out5 @ out6
                                                        @ [Complete csv_filename],
                                            outcome = Inr ReturnComplete\<rparr>))))))"

section \<open>Predicates and example inputs of the properties\<close>

text \<open>
  A \<^verbatim>\<open>public_metrics\<close> value on which lines 87-88 do not raise: absent, empty, or
  holding both keys the assembler reads.
\<close>

definition metrics_ok :: "(string \<times> int) list option \<Rightarrow> bool" where
  "metrics_ok pm =
     (case pm of
        None \<Rightarrow> True
      | Some d \<Rightarrow> d = [] \<or> (map_of d ''retweet_count'' \<noteq> None \<and> map_of d ''like_count'' \<noteq> None))"

text \<open>
  The summary report in closed form, for a float arithmetic \<open>fl\<close>: the number of records
  with a label, the line of the distribution for a label, the stored polarities added
  from left to right and divided by the number of records, and the report
  \<^verbatim>\<open>generate_summary\<close> prints for a non-empty list of records.
\<close>

definition label_count :: "string \<Rightarrow> 'ts analyzed list \<Rightarrow> nat" where
  "label_count s rs = length (filter (\<lambda>r. sentiment r = s) rs)"

definition share :: "float_ops \<Rightarrow> string \<Rightarrow> 'ts analyzed list \<Rightarrow> string \<times> nat \<times> real \<times> nat" where
  "share fl s rs =
     (s, label_count s rs,
      f_mul fl (f_div fl (real (label_count s rs)) (real (length rs))) 100,
      nat (py_int (f_div fl
             (f_mul fl (f_div fl (real (label_count s rs)) (real (length rs))) 100) 5)))"

definition mean_polarity :: "float_ops \<Rightarrow> 'ts analyzed list \<Rightarrow> real" where
  "mean_polarity fl rs =
     f_div fl (foldl (f_add fl) 0 (map polarity_score rs)) (real (length rs))"

definition report :: "float_ops \<Rightarrow> string \<Rightarrow> 'ts analyzed list \<Rightarrow> summary" where
  "report fl kw rs =
     \<lparr>total_tweets = length rs, keyword = kw,
      distribution =
        [share fl ''positive'' rs, share fl ''negative'' rs, share fl ''neutral'' rs],
      avg_polarity = mean_polarity fl rs,
      overall = (if mean_polarity fl rs > float_tenth then ''POSITIVE''
                 else if mean_polarity fl rs < - float_tenth then ''NEGATIVE''
                 else ''NEUTRAL'')\<rparr>"

text \<open>The label and the count of each line of a report's distribution.\<close>

definition label_counts :: "summary \<Rightarrow> (string \<times> nat) list" where
  "label_counts s = map (\<lambda>(l, c, p, b). (l, c)) (distribution s)"

text \<open>
  Reading a run's output: whether the summary report was printed, and whether the publish
  stage ran (\<^verbatim>\<open>upload_to_s3\<close> prints exactly one of its two messages on every path).
\<close>

fun is_summary :: "event \<Rightarrow> bool" where
  "is_summary (SummaryReport s) = True"
| "is_summary _ = False"

fun is_upload :: "event \<Rightarrow> bool" where
  "is_upload (Uploaded b k) = True"
| "is_upload UploadError = True"
| "is_upload _ = False"

definition summary_printed :: "event list \<Rightarrow> bool" where
  "summary_printed out = list_ex is_summary out"

definition publish_attempted :: "event list \<Rightarrow> bool" where
  "publish_attempted out = list_ex is_upload out"

text \<open>
  A run that reaches the export stage with the records of \<open>tweets\<close>: the client is built,
  the provider answers the query of line 34 with the non-empty list \<open>tweets\<close>, and the
  assembler raises on none of them.
\<close>

definition fetches :: "config \<Rightarrow> 'ts env \<Rightarrow> 'ts tweet list \<Rightarrow> bool" where
  "fetches cfg env tweets =
     (\<not> client_raises env \<and>
      search_recent_tweets env (search_keyword cfg @ '' lang:en -is:retweet'') (tweet_count cfg)
        = Inr (Some tweets) \<and>
      tweets \<noteq> [] \<and>
      list_all (\<lambda>t. metrics_ok (tw_public_metrics t)) tweets)"

text \<open>
  Example inputs: a polarity function, a post with the metrics the provider sends, a post
  without metrics whose text holds a line feed, and a post whose metrics lack
  \<^verbatim>\<open>like_count\<close>.
\<close>

definition example_polarity :: "string \<Rightarrow> real" where
  "example_polarity s =
     (if s = ''AWS is great!'' then 4 / 5
      else if s = ''AWS outage again'' then - (1 / 16)
      else 0)"

definition tweet_full :: "string tweet" where
  "tweet_full =
     \<lparr>tw_id = 101, tw_text = ''AWS is great!'', tw_created_at = ''2024-05-01 10:00:00+00:00'',
      tw_public_metrics =
        Some [(''retweet_count'', 3), (''reply_count'', 0), (''like_count'', 7), (''quote_count'', 1)]\<rparr>"

definition tweet_bare :: "string tweet" where
  "tweet_bare =
     \<lparr>tw_id = 102, tw_text = ''AWS outage'' @ [CHR 0x0A] @ ''again'',
      tw_created_at = ''2024-05-01 10:00:05+00:00'', tw_public_metrics = None\<rparr>"

definition tweet_partial :: "string tweet" where
  "tweet_partial =
     \<lparr>tw_id = 103, tw_text = ''Just using AWS'', tw_created_at = ''2024-05-01 10:00:09+00:00'',
      tw_public_metrics = Some [(''retweet_count'', 3)]\<rparr>"

text \<open>The records assembled from the first two example posts, and a world without files.\<close>

definition example_records :: "string analyzed list" where
  "example_records =
     [\<lparr>tweet_id = 101, text_col = ''AWS is great!'',
        created_at = ''2024-05-01 10:00:00+00:00'', sentiment = ''positive'',
        polarity_score = 4 / 5, retweet_count = 3, like_count = 7\<rparr>,
      \<lparr>tweet_id = 102, text_col = ''AWS outage again'',
        created_at = ''2024-05-01 10:00:05+00:00'', sentiment = ''negative'',
        polarity_score = - (31 / 500), retweet_count = 0, like_count = 0\<rparr>]"

definition empty_world :: "string world" where
  "empty_world = \<lparr>files = Map.empty, s3 = Map.empty\<rparr>"

text \<open>
  An environment in which every stage succeeds: the provider answers the query for
  \<^verbatim>\<open>AWS\<close> with the first two example posts. Its arithmetic is the exact one; every
  theorem below holds for any arithmetic, and no example reads a number it computes.
\<close>

definition exact_arith :: float_ops where
  "exact_arith = \<lparr>f_add = (+), f_div = (/), f_mul = (*)\<rparr>"

definition example_search :: "string \<Rightarrow> nat \<Rightarrow> py_error + string tweet list option" where
  "example_search q n =
     (if q = ''AWS lang:en -is:retweet'' then Inr (Some (take n [tweet_full, tweet_bare]))
      else Inr None)"

definition example_env :: "string env" where
  "example_env =
     \<lparr>client_raises = False, search_recent_tweets = example_search,
      textblob = example_polarity, csv_fault = NoFault, s3_raises = False,
      now_stamp = ''20240501_100100'', arith = exact_arith\<rparr>"

text \<open>A configuration with the bucket set, and the file a successful example run exports.\<close>

definition example_config :: config where
  "example_config = default_config\<lparr>aws_bucket_name := ''my-bucket''\<rparr>"

definition example_csv :: "string csv" where
  "example_csv = map StrCell headers # map writerow example_records"

section \<open>Scorer and assembler: auxiliary facts\<close>

lemma analyze_sentiment_eq:
  "analyze_sentiment sc t =
     (if sc t > 0 then ''positive'' else if sc t < 0 then ''negative'' else ''neutral'', sc t)"
  by (simp add: analyze_sentiment_def Let_def)

lemma clean_text_map:
  "clean_text s = map (\<lambda>c. if c = CHR 0x0A \<or> c = CHR 0x0D then CHR '' '' else c) s"
  by (simp add: clean_text_def replace_char_def)

lemma clean_text_no_newline:
  "CHR 0x0A \<notin> set (clean_text s) \<and> CHR 0x0D \<notin> set (clean_text s)"
  by (auto simp: clean_text_map)

lemma round_half_even_near: "\<bar>of_int (round_half_even x) - x\<bar> \<le> 1 / 2"
proof -
  have "of_int \<lfloor>x\<rfloor> \<le> x" and "x < of_int \<lfloor>x\<rfloor> + 1"
    by linarith+
  then show ?thesis
    by (auto simp: round_half_even_def Let_def)
qed

lemma py_round3_near: "\<bar>py_round x 3 - x\<bar> \<le> 1 / 2000"
proof -
  have "\<bar>of_int (round_half_even (x * 1000)) - x * 1000\<bar> \<le> 1 / 2"
    by (rule round_half_even_near)
  then show ?thesis
    by (simp add: py_round_def field_simps abs_le_iff)
qed

lemma py_round3_grid: "py_round x 3 * 1000 = of_int (round_half_even (x * 1000))"
  by (simp add: py_round_def)

lemma tweet_data_polarity:
  "tweet_data sc t = Inr (r, p) \<Longrightarrow> p = sc (clean_text (tw_text t))"
  by (auto simp: tweet_data_def analyze_sentiment_eq Let_def split: sum.splits)

lemma tweet_data_fields:
  assumes "tweet_data sc t = Inr (r, p)"
  shows "tweet_id r = tw_id t" and "text_col r = clean_text (tw_text t)"
    and "created_at r = tw_created_at t"
    and "sentiment r = fst (analyze_sentiment sc (clean_text (tw_text t)))"
    and "polarity_score r = py_round (sc (clean_text (tw_text t))) 3"
    and "metric_or_zero (tw_public_metrics t) ''retweet_count'' = Inr (retweet_count r)"
    and "metric_or_zero (tw_public_metrics t) ''like_count'' = Inr (like_count r)"
  using assms
  by (auto simp: tweet_data_def analyze_sentiment_eq Let_def split: sum.splits)

lemma metric_or_zero_ok:
  "metrics_ok pm \<Longrightarrow> k = ''retweet_count'' \<or> k = ''like_count'' \<Longrightarrow> \<exists>v. metric_or_zero pm k = Inr v"
  by (auto simp: metrics_ok_def metric_or_zero_def getitem_def split: option.splits)

lemma tweet_data_ok:
  assumes "metrics_ok (tw_public_metrics t)"
  shows "\<exists>r. tweet_data sc t = Inr (r, sc (clean_text (tw_text t)))"
proof -
  obtain rc where rc: "metric_or_zero (tw_public_metrics t) ''retweet_count'' = Inr rc"
    using metric_or_zero_ok [OF assms] by blast
  obtain lc where lc: "metric_or_zero (tw_public_metrics t) ''like_count'' = Inr lc"
    using metric_or_zero_ok [OF assms] by blast
  show ?thesis
    by (simp add: tweet_data_def analyze_sentiment_eq Let_def rc lc)
qed

lemma tweet_data_error:
  assumes "\<not> metrics_ok (tw_public_metrics t)"
  shows "\<exists>k. tweet_data sc t = Inl (KeyError k)"
  using assms
  by (auto simp: metrics_ok_def tweet_data_def metric_or_zero_def getitem_def
      analyze_sentiment_eq Let_def split: option.splits sum.splits)

lemma process_loop_ok:
  assumes "\<forall>t\<in>set ts. metrics_ok (tw_public_metrics t)"
  shows "\<exists>new lines. process_loop sc i ts results out = (out @ lines, Inr (results @ new))
           \<and> list_all2 (\<lambda>t r. tweet_data sc t = Inr (r, sc (clean_text (tw_text t)))) ts new
           \<and> lines = map (\<lambda>(j, r, t). TweetLine j (sentiment r) (sc (clean_text (tw_text t))))
                       (zip [i..<i + length ts] (zip new ts))"
  using assms
proof (induction ts arbitrary: i results out)
  case Nil
  then show ?case by simp
next
  case (Cons t ts)
  from Cons.prems have "metrics_ok (tw_public_metrics t)" by simp
  then obtain r where r: "tweet_data sc t = Inr (r, sc (clean_text (tw_text t)))"
    using tweet_data_ok by blast
  from Cons.prems have rest: "\<forall>t\<in>set ts. metrics_ok (tw_public_metrics t)" by simp
  from Cons.IH [OF rest, of "i + 1" "results @ [r]"
      "out @ [TweetLine i (sentiment r) (sc (clean_text (tw_text t)))]"]
  obtain new lines where
    step: "process_loop sc (i + 1) ts (results @ [r])
             (out @ [TweetLine i (sentiment r) (sc (clean_text (tw_text t)))])
           = ((out @ [TweetLine i (sentiment r) (sc (clean_text (tw_text t)))]) @ lines,
              Inr ((results @ [r]) @ new))"
    and rel: "list_all2 (\<lambda>t r. tweet_data sc t = Inr (r, sc (clean_text (tw_text t)))) ts new"
    and lines: "lines = map (\<lambda>(j, r, t). TweetLine j (sentiment r) (sc (clean_text (tw_text t))))
                       (zip [i + 1..<i + 1 + length ts] (zip new ts))"
    by blast
  have up: "[i..<i + length (t # ts)] = i # [i + 1..<i + 1 + length ts]"
    by (subst upt_rec) simp
  show ?case
    apply (rule exI [of _ "r # new"])
    apply (rule exI [of _ "TweetLine i (sentiment r) (sc (clean_text (tw_text t))) # lines"])
    using step rel lines r up by simp
qed

lemma process_loop_error:
  assumes "t \<in> set ts" and "\<not> metrics_ok (tw_public_metrics t)"
  shows "\<exists>k. snd (process_loop sc i ts results out) = Inl (KeyError k)"
  using assms
proof (induction ts arbitrary: i results out)
  case Nil
  then show ?case by simp
next
  case (Cons u us)
  show ?case
  proof (cases "metrics_ok (tw_public_metrics u)")
    case True
    then obtain r where r: "tweet_data sc u = Inr (r, sc (clean_text (tw_text u)))"
      using tweet_data_ok by blast
    from True Cons.prems have "t \<in> set us" by auto
    from Cons.IH [OF this Cons.prems(2)] show ?thesis
      by (simp add: r)
  next
    case False
    then obtain k where "tweet_data sc u = Inl (KeyError k)"
      using tweet_data_error by blast
    then show ?thesis by simp
  qed
qed

lemma process_tweets_ok:
  assumes "\<forall>t\<in>set tweets. metrics_ok (tw_public_metrics t)"
  shows "\<exists>rs. process_tweets sc tweets =
           (map (\<lambda>(j, r, t). TweetLine j (sentiment r) (sc (clean_text (tw_text t))))
              (zip [1..<1 + length tweets] (zip rs tweets)), Inr rs)
           \<and> list_all2 (\<lambda>t r. tweet_data sc t = Inr (r, sc (clean_text (tw_text t)))) tweets rs"
  using process_loop_ok [OF assms, of sc 1 "[]" "[]"]
  by (auto simp: process_tweets_def)

lemma process_tweets_error:
  assumes "t \<in> set tweets" and "\<not> metrics_ok (tw_public_metrics t)"
  shows "\<exists>k. snd (process_tweets sc tweets) = Inl (KeyError k)"
  using process_loop_error [OF assms] by (simp add: process_tweets_def)

lemma process_tweets_Inr:
  assumes "snd (process_tweets sc tweets) = Inr rs"
  shows "(\<forall>t\<in>set tweets. metrics_ok (tw_public_metrics t))
         \<and> list_all2 (\<lambda>t r. tweet_data sc t = Inr (r, sc (clean_text (tw_text t)))) tweets rs"
proof -
  have ok: "\<forall>t\<in>set tweets. metrics_ok (tw_public_metrics t)"
  proof (rule ccontr)
    assume "\<not> (\<forall>t\<in>set tweets. metrics_ok (tw_public_metrics t))"
    then obtain t where "t \<in> set tweets" and "\<not> metrics_ok (tw_public_metrics t)" by blast
    from process_tweets_error [OF this, of sc] assms show False by auto
  qed
  from process_tweets_ok [OF ok, of sc] assms ok show ?thesis by auto
qed

section \<open>Properties of the sentiment scorer\<close>

text \<open>
  Claim C1. For every polarity the scorer returns, \<^verbatim>\<open>analyze_sentiment\<close> labels the text
  \<^verbatim>\<open>positive\<close> exactly when the polarity is above zero, \<^verbatim>\<open>negative\<close> exactly when it is
  below zero and \<^verbatim>\<open>neutral\<close> exactly when it is zero; there is no fourth label, and the
  polarity is returned unchanged.
\<close>

theorem C1_label_by_sign:
  "(fst (analyze_sentiment sc t) = ''positive'' \<longleftrightarrow> sc t > 0) \<and>
   (fst (analyze_sentiment sc t) = ''negative'' \<longleftrightarrow> sc t < 0) \<and>
   (fst (analyze_sentiment sc t) = ''neutral'' \<longleftrightarrow> sc t = 0) \<and>
   fst (analyze_sentiment sc t) \<in> {''positive'', ''negative'', ''neutral''} \<and>
   snd (analyze_sentiment sc t) = sc t"
  by (simp add: analyze_sentiment_eq)

theorem C1_label_by_sign_witness:
  "fst (analyze_sentiment example_polarity ''AWS is great!'') = ''positive'' \<and>
   fst (analyze_sentiment example_polarity ''AWS outage again'') = ''negative'' \<and>
   fst (analyze_sentiment example_polarity ''Just using AWS'') = ''neutral''"
  using C1_label_by_sign [of example_polarity "''AWS is great!''"]
    C1_label_by_sign [of example_polarity "''AWS outage again''"]
    C1_label_by_sign [of example_polarity "''Just using AWS''"]
  by (simp add: example_polarity_def)

section \<open>Properties of the record assembler\<close>

text \<open>
  The statement "for every sequence of posts, \<^verbatim>\<open>process_tweets\<close> produces one record per
  post" fails on a post whose metrics are present without \<^verbatim>\<open>like_count\<close>: line 88 raises
  \<^verbatim>\<open>KeyError\<close> and no list of records is returned.
\<close>

theorem C2_partial_metrics_counterexample:
  "snd (process_tweets example_polarity [tweet_full, tweet_partial]) = Inl (KeyError ''like_count'')"
  by (simp add: process_tweets_def tweet_data_def metric_or_zero_def getitem_def
      analyze_sentiment_eq tweet_full_def tweet_partial_def Let_def)

text \<open>
  Claim C2, amended. For every finite sequence of posts in which each post's
  \<^verbatim>\<open>public_metrics\<close> is absent, empty or holds both \<^verbatim>\<open>retweet_count\<close> and \<^verbatim>\<open>like_count\<close>,
  \<^verbatim>\<open>process_tweets\<close> returns exactly one record per post, the record at each position
  being the one assembled from the post at that position: nothing is filtered,
  deduplicated or reordered, and the output is as long as the input.
\<close>

theorem C2_process_tweets_one_to_one:
  assumes "\<forall>t\<in>set tweets. metrics_ok (tw_public_metrics t)"
  shows "\<exists>rs. snd (process_tweets sc tweets) = Inr rs \<and> length rs = length tweets
           \<and> (\<forall>i<length tweets.
                 tweet_data sc (tweets ! i) = Inr (rs ! i, sc (clean_text (tw_text (tweets ! i)))))
           \<and> map tweet_id rs = map tw_id tweets"
proof -
  from process_tweets_ok [OF assms, of sc] obtain rs where
    run: "snd (process_tweets sc tweets) = Inr rs"
    and rel: "list_all2 (\<lambda>t r. tweet_data sc t = Inr (r, sc (clean_text (tw_text t)))) tweets rs"
    by auto
  from rel have len: "length rs = length tweets"
    by (simp add: list_all2_lengthD)
  from rel have nth: "\<forall>i<length tweets.
      tweet_data sc (tweets ! i) = Inr (rs ! i, sc (clean_text (tw_text (tweets ! i))))"
    by (simp add: list_all2_conv_all_nth)
  have "map tweet_id rs = map tw_id tweets"
  proof (rule nth_equalityI)
    show "length (map tweet_id rs) = length (map tw_id tweets)" using len by simp
  next
    fix i assume "i < length (map tweet_id rs)"
    then have i: "i < length tweets" using len by simp
    with nth have "tweet_data sc (tweets ! i) = Inr (rs ! i, sc (clean_text (tw_text (tweets ! i))))"
      by blast
    then have "tweet_id (rs ! i) = tw_id (tweets ! i)" by (rule tweet_data_fields)
    then show "map tweet_id rs ! i = map tw_id tweets ! i" using i len by simp
  qed
  with run len nth show ?thesis by blast
qed

theorem C2_process_tweets_one_to_one_witness:
  "\<exists>rs. snd (process_tweets example_polarity [tweet_full, tweet_bare]) = Inr rs
         \<and> length rs = 2 \<and> map tweet_id rs = [101, 102]"
proof -
  have "\<forall>t\<in>set [tweet_full, tweet_bare]. metrics_ok (tw_public_metrics t)"
    by (simp add: metrics_ok_def tweet_full_def tweet_bare_def)
  from C2_process_tweets_one_to_one [OF this, of example_polarity]
  show ?thesis by (auto simp: tweet_full_def tweet_bare_def)
qed

section \<open>Normalised text and the exported file\<close>

lemma writerow_eq:
  "writerow r =
     [IntCell (tweet_id r), StrCell (text_col r), TimeCell (created_at r), StrCell (sentiment r),
      FloatCell (polarity_score r), IntCell (retweet_count r), IntCell (like_count r)]"
  by (simp add: writerow_def headers_def dict_get_def)

lemma label_no_newline:
  "CHR 0x0A \<notin> set (fst (analyze_sentiment sc s)) \<and> CHR 0x0D \<notin> set (fst (analyze_sentiment sc s))"
  by (simp add: analyze_sentiment_eq)

lemma headers_no_newline:
  "\<forall>h\<in>set headers. CHR 0x0A \<notin> set h \<and> CHR 0x0D \<notin> set h"
  by (simp add: headers_def)

lemma process_tweets_nth:
  assumes "snd (process_tweets sc tweets) = Inr rs"
  shows "length rs = length tweets"
    and "i < length tweets \<Longrightarrow>
           tweet_data sc (tweets ! i) = Inr (rs ! i, sc (clean_text (tw_text (tweets ! i))))"
  using process_tweets_Inr [OF assms]
  by (simp_all add: list_all2_conv_all_nth)

lemma process_tweets_member:
  assumes "snd (process_tweets sc tweets) = Inr rs" and "r \<in> set rs"
  shows "\<exists>t\<in>set tweets. tweet_data sc t = Inr (r, sc (clean_text (tw_text t)))"
proof -
  from assms(2) obtain i where i: "i < length rs" and r: "r = rs ! i"
    by (auto simp: in_set_conv_nth)
  from process_tweets_nth [OF assms(1)] i r
  have "tweet_data sc (tweets ! i) = Inr (r, sc (clean_text (tw_text (tweets ! i))))"
    and "i < length tweets"
    by simp_all
  then show ?thesis by (metis nth_mem)
qed

lemma record_strings_clean:
  assumes "tweet_data sc t = Inr (r, p)" and "StrCell s \<in> set (writerow r)"
  shows "CHR 0x0A \<notin> set s \<and> CHR 0x0D \<notin> set s"
proof -
  from assms(2) have "s = text_col r \<or> s = sentiment r"
    by (auto simp: writerow_eq)
  with tweet_data_fields(2,4) [OF assms(1)] show ?thesis
    using clean_text_no_newline label_no_newline by metis
qed

text \<open>
  Claim C8. In every list of records \<^verbatim>\<open>process_tweets\<close> returns, the text of the record at
  each position is the raw text of the post at that position with every line feed and
  carriage return replaced by a space; the label and the stored polarity are those the
  scorer gives for this normalised text; and no string field of any line of the exported
  file, header included, holds a line feed or a carriage return.
\<close>

theorem C8_text_normalised:
  assumes "snd (process_tweets sc tweets) = Inr rs"
  shows "length rs = length tweets \<and>
     (\<forall>i<length tweets.
        text_col (rs ! i) =
          map (\<lambda>c. if c = CHR 0x0A \<or> c = CHR 0x0D then CHR '' '' else c) (tw_text (tweets ! i)) \<and>
        sentiment (rs ! i) = fst (analyze_sentiment sc (text_col (rs ! i))) \<and>
        polarity_score (rs ! i) = py_round (sc (text_col (rs ! i))) 3) \<and>
     (\<forall>line\<in>set (map StrCell headers # map writerow rs). \<forall>s.
        StrCell s \<in> set line \<longrightarrow> CHR 0x0A \<notin> set s \<and> CHR 0x0D \<notin> set s) \<and>
     files (snd (snd (save_to_csv NoFault rs filename w))) filename =
       Some (map StrCell headers # map writerow rs)"
proof -
  note nth = process_tweets_nth [OF assms]
  have fields: "\<forall>i<length tweets.
        text_col (rs ! i) =
          map (\<lambda>c. if c = CHR 0x0A \<or> c = CHR 0x0D then CHR '' '' else c) (tw_text (tweets ! i)) \<and>
        sentiment (rs ! i) = fst (analyze_sentiment sc (text_col (rs ! i))) \<and>
        polarity_score (rs ! i) = py_round (sc (text_col (rs ! i))) 3"
  proof (intro allI impI)
    fix i assume "i < length tweets"
    from tweet_data_fields(2,4,5) [OF nth(2) [OF this]]
    show "text_col (rs ! i) =
          map (\<lambda>c. if c = CHR 0x0A \<or> c = CHR 0x0D then CHR '' '' else c) (tw_text (tweets ! i)) \<and>
        sentiment (rs ! i) = fst (analyze_sentiment sc (text_col (rs ! i))) \<and>
        polarity_score (rs ! i) = py_round (sc (text_col (rs ! i))) 3"
      by (simp add: clean_text_map)
  qed
  have cells: "\<forall>line\<in>set (map StrCell headers # map writerow rs). \<forall>s.
        StrCell s \<in> set line \<longrightarrow> CHR 0x0A \<notin> set s \<and> CHR 0x0D \<notin> set s"
  proof (intro ballI allI impI)
    fix line s
    assume line: "line \<in> set (map StrCell headers # map writerow rs)" and s: "StrCell s \<in> set line"
    show "CHR 0x0A \<notin> set s \<and> CHR 0x0D \<notin> set s"
    proof (cases "line = map StrCell headers")
      case True
      with s have "s \<in> set headers" by auto
      with headers_no_newline show ?thesis by blast
    next
      case False
      with line obtain r where r: "r \<in> set rs" and l: "line = writerow r" by auto
      from process_tweets_member [OF assms r] obtain t
        where "tweet_data sc t = Inr (r, sc (clean_text (tw_text t)))" by blast
      from record_strings_clean [OF this] s l show ?thesis by blast
    qed
  qed
  have written: "files (snd (snd (save_to_csv NoFault rs filename w))) filename =
       Some (map StrCell headers # map writerow rs)"
    by (simp add: save_to_csv_def)
  from nth(1) fields cells written show ?thesis by blast
qed

lemma example_run:
  "process_tweets example_polarity [tweet_full, tweet_bare] =
     ([TweetLine 1 ''positive'' (4 / 5), TweetLine 2 ''negative'' (- (1 / 16))],
      Inr example_records)"
  by (simp add: process_tweets_def tweet_data_def metric_or_zero_def getitem_def
      analyze_sentiment_eq tweet_full_def tweet_bare_def clean_text_map example_polarity_def
      py_round_def round_half_even_def example_records_def Let_def)

theorem C8_text_normalised_witness:
  "snd (process_tweets example_polarity [tweet_full, tweet_bare]) = Inr example_records \<and>
   CHR 0x0A \<in> set (tw_text tweet_bare) \<and>
   text_col (example_records ! 1) = ''AWS outage again''"
proof -
  have run: "snd (process_tweets example_polarity [tweet_full, tweet_bare]) = Inr example_records"
    by (simp add: example_run)
  from C8_text_normalised [OF run, of csv_filename empty_world]
  have "\<forall>i<length [tweet_full, tweet_bare].
          text_col (example_records ! i) =
            map (\<lambda>c. if c = CHR 0x0A \<or> c = CHR 0x0D then CHR '' '' else c)
              (tw_text ([tweet_full, tweet_bare] ! i))"
    by blast
  then have "text_col (example_records ! 1) =
            map (\<lambda>c. if c = CHR 0x0A \<or> c = CHR 0x0D then CHR '' '' else c)
              (tw_text ([tweet_full, tweet_bare] ! 1))"
    by simp
  then have "text_col (example_records ! 1) = ''AWS outage again''"
    by (simp add: tweet_bare_def)
  with run show ?thesis by (simp add: tweet_bare_def)
qed

text \<open>
  Claim C9. A successful export writes a file whose first line is the seven column names
  \<^verbatim>\<open>tweet_id, text, created_at, sentiment, polarity_score, retweet_count, like_count\<close> in
  that order, followed by one line per record in the order of the records, each line
  holding the record's seven values in column order. The records of \<^verbatim>\<open>process_tweets\<close>
  stand in the order of the posts, and the polarity stored in each is the scorer's polarity
  rounded to three decimal places: a multiple of \<open>1/1000\<close> at most \<open>1/2000\<close> away.
\<close>

theorem C9_export_layout:
  "save_to_csv NoFault rs filename w =
     ([Saved filename], True,
      w\<lparr>files := (files w)(filename \<mapsto>
          map StrCell [''tweet_id'', ''text'', ''created_at'', ''sentiment'',
                       ''polarity_score'', ''retweet_count'', ''like_count'']
          # map (\<lambda>r. [IntCell (tweet_id r), StrCell (text_col r), TimeCell (created_at r),
                       StrCell (sentiment r), FloatCell (polarity_score r),
                       IntCell (retweet_count r), IntCell (like_count r)]) rs)\<rparr>) \<and>
   (snd (process_tweets sc tweets) = Inr rs \<longrightarrow>
      length rs = length tweets \<and>
      (\<forall>i<length tweets.
         tweet_id (rs ! i) = tw_id (tweets ! i) \<and>
         polarity_score (rs ! i) = py_round (sc (clean_text (tw_text (tweets ! i)))) 3 \<and>
         polarity_score (rs ! i) * 1000 =
           of_int (round_half_even (sc (clean_text (tw_text (tweets ! i))) * 1000)) \<and>
         \<bar>polarity_score (rs ! i) - sc (clean_text (tw_text (tweets ! i)))\<bar> \<le> 1 / 2000))"
proof -
  have rows: "map writerow rs =
      map (\<lambda>r. [IntCell (tweet_id r), StrCell (text_col r), TimeCell (created_at r),
                       StrCell (sentiment r), FloatCell (polarity_score r),
                       IntCell (retweet_count r), IntCell (like_count r)]) rs"
    by (simp add: writerow_eq)
  have export: "save_to_csv NoFault rs filename w =
     ([Saved filename], True,
      w\<lparr>files := (files w)(filename \<mapsto>
          map StrCell [''tweet_id'', ''text'', ''created_at'', ''sentiment'',
                       ''polarity_score'', ''retweet_count'', ''like_count'']
          # map (\<lambda>r. [IntCell (tweet_id r), StrCell (text_col r), TimeCell (created_at r),
                       StrCell (sentiment r), FloatCell (polarity_score r),
                       IntCell (retweet_count r), IntCell (like_count r)]) rs)\<rparr>)"
    unfolding save_to_csv_def Let_def rows by (simp add: headers_def)
  have stored: "length rs = length tweets \<and>
      (\<forall>i<length tweets.
         tweet_id (rs ! i) = tw_id (tweets ! i) \<and>
         polarity_score (rs ! i) = py_round (sc (clean_text (tw_text (tweets ! i)))) 3 \<and>
         polarity_score (rs ! i) * 1000 =
           of_int (round_half_even (sc (clean_text (tw_text (tweets ! i))) * 1000)) \<and>
         \<bar>polarity_score (rs ! i) - sc (clean_text (tw_text (tweets ! i)))\<bar> \<le> 1 / 2000)"
    if run: "snd (process_tweets sc tweets) = Inr rs"
  proof (intro conjI allI impI)
    show "length rs = length tweets" by (rule process_tweets_nth(1) [OF run])
  next
    fix i assume i: "i < length tweets"
    note td = process_tweets_nth(2) [OF run i]
    show "tweet_id (rs ! i) = tw_id (tweets ! i)" by (rule tweet_data_fields(1) [OF td])
    show p: "polarity_score (rs ! i) = py_round (sc (clean_text (tw_text (tweets ! i)))) 3"
      by (rule tweet_data_fields(5) [OF td])
    show "polarity_score (rs ! i) * 1000 =
           of_int (round_half_even (sc (clean_text (tw_text (tweets ! i))) * 1000))"
      unfolding p by (rule py_round3_grid)
    show "\<bar>polarity_score (rs ! i) - sc (clean_text (tw_text (tweets ! i)))\<bar> \<le> 1 / 2000"
      unfolding p by (rule py_round3_near)
  qed
  from export stored show ?thesis by blast
qed

theorem C9_export_layout_witness:
  "files (snd (snd (save_to_csv NoFault example_records csv_filename empty_world))) csv_filename =
     Some [map StrCell [''tweet_id'', ''text'', ''created_at'', ''sentiment'',
                        ''polarity_score'', ''retweet_count'', ''like_count''],
           [IntCell 101, StrCell ''AWS is great!'', TimeCell ''2024-05-01 10:00:00+00:00'',
            StrCell ''positive'', FloatCell (4 / 5), IntCell 3, IntCell 7],
           [IntCell 102, StrCell ''AWS outage again'', TimeCell ''2024-05-01 10:00:05+00:00'',
            StrCell ''negative'', FloatCell (- (31 / 500)), IntCell 0, IntCell 0]] \<and>
   \<bar>polarity_score (example_records ! 1) - example_polarity ''AWS outage again''\<bar> \<le> 1 / 2000"
proof -
  have run: "snd (process_tweets example_polarity [tweet_full, tweet_bare]) = Inr example_records"
    by (simp add: example_run)
  note c9 = C9_export_layout [of example_records csv_filename empty_world example_polarity
      "[tweet_full, tweet_bare]"]
  from c9 have "save_to_csv NoFault example_records csv_filename empty_world =
     ([Saved csv_filename], True,
      empty_world\<lparr>files := (files empty_world)(csv_filename \<mapsto>
          map StrCell [''tweet_id'', ''text'', ''created_at'', ''sentiment'',
                       ''polarity_score'', ''retweet_count'', ''like_count'']
          # map (\<lambda>r. [IntCell (tweet_id r), StrCell (text_col r), TimeCell (created_at r),
                       StrCell (sentiment r), FloatCell (polarity_score r),
                       IntCell (retweet_count r), IntCell (like_count r)]) example_records)\<rparr>)"
    by blast
  then have first: "files (snd (snd (save_to_csv NoFault example_records csv_filename empty_world)))
      csv_filename =
     Some [map StrCell [''tweet_id'', ''text'', ''created_at'', ''sentiment'',
                        ''polarity_score'', ''retweet_count'', ''like_count''],
           [IntCell 101, StrCell ''AWS is great!'', TimeCell ''2024-05-01 10:00:00+00:00'',
            StrCell ''positive'', FloatCell (4 / 5), IntCell 3, IntCell 7],
           [IntCell 102, StrCell ''AWS outage again'', TimeCell ''2024-05-01 10:00:05+00:00'',
            StrCell ''negative'', FloatCell (- (31 / 500)), IntCell 0, IntCell 0]]"
    by (simp add: example_records_def)
  from c9 run have "\<forall>i<length [tweet_full, tweet_bare].
      \<bar>polarity_score (example_records ! i)
         - example_polarity (clean_text (tw_text ([tweet_full, tweet_bare] ! i)))\<bar> \<le> 1 / 2000"
    by blast
  from this [rule_format, of 1]
  have "\<bar>polarity_score (example_records ! 1)
         - example_polarity (clean_text (tw_text ([tweet_full, tweet_bare] ! 1)))\<bar> \<le> 1 / 2000"
    by simp
  then have "\<bar>polarity_score (example_records ! 1) - example_polarity ''AWS outage again''\<bar>
      \<le> 1 / 2000"
    by (simp add: tweet_bare_def clean_text_map)
  with first show ?thesis by blast
qed

text \<open>
  Claim C10. The assembler stores 0 for both engagement counters when the post's
  \<^verbatim>\<open>public_metrics\<close> is \<^verbatim>\<open>None\<close> or empty, that is falsy. When the object is present and
  non-empty, it indexes the keys: a missing \<^verbatim>\<open>retweet_count\<close> raises
  \<^verbatim>\<open>KeyError('retweet_count')\<close>, a missing \<^verbatim>\<open>like_count\<close> raises \<^verbatim>\<open>KeyError('like_count')\<close>,
  and with both keys present the stored values are the dict's. A post on which the
  assembler raises makes \<^verbatim>\<open>process_tweets\<close> raise, so assembly is not total.
\<close>

theorem C10_metrics_default:
  "(tw_public_metrics t = None \<or> tw_public_metrics t = Some [] \<longrightarrow>
      (\<exists>r. tweet_data sc t = Inr (r, sc (clean_text (tw_text t)))
           \<and> retweet_count r = 0 \<and> like_count r = 0)) \<and>
   (tw_public_metrics t = Some d \<and> d \<noteq> [] \<and> map_of d ''retweet_count'' = None \<longrightarrow>
      tweet_data sc t = Inl (KeyError ''retweet_count'')) \<and>
   (tw_public_metrics t = Some d \<and> d \<noteq> [] \<and> map_of d ''retweet_count'' = Some rc
      \<and> map_of d ''like_count'' = None \<longrightarrow>
      tweet_data sc t = Inl (KeyError ''like_count'')) \<and>
   (tw_public_metrics t = Some d \<and> d \<noteq> [] \<and> map_of d ''retweet_count'' = Some rc
      \<and> map_of d ''like_count'' = Some lc \<longrightarrow>
      (\<exists>r. tweet_data sc t = Inr (r, sc (clean_text (tw_text t)))
           \<and> retweet_count r = rc \<and> like_count r = lc)) \<and>
   (t \<in> set tweets \<and> (\<exists>e. tweet_data sc t = Inl e) \<longrightarrow>
      (\<exists>k. snd (process_tweets sc tweets) = Inl (KeyError k)))"
proof -
  have raised: "\<exists>k. snd (process_tweets sc tweets) = Inl (KeyError k)"
    if "t \<in> set tweets" and "\<exists>e. tweet_data sc t = Inl e"
  proof -
    from that(2) have "\<not> metrics_ok (tw_public_metrics t)"
      using tweet_data_ok [of t sc] by auto
    from process_tweets_error [OF that(1) this] show ?thesis .
  qed
  show ?thesis
    by (intro conjI impI raised)
      (auto simp: tweet_data_def metric_or_zero_def getitem_def analyze_sentiment_eq Let_def)
qed

theorem C10_metrics_default_witness:
  "tweet_data example_polarity tweet_partial = Inl (KeyError ''like_count'') \<and>
   snd (process_tweets example_polarity [tweet_full, tweet_partial, tweet_bare])
     = Inl (KeyError ''like_count'') \<and>
   (\<exists>r. tweet_data example_polarity tweet_bare = Inr (r, - (1 / 16))
        \<and> retweet_count r = 0 \<and> like_count r = 0)"
proof -
  note c10 = C10_metrics_default [where t = tweet_partial and d = "[(''retweet_count'', 3)]"
      and rc = 3 and sc = example_polarity and lc = 0
      and tweets = "[tweet_full, tweet_partial, tweet_bare]"]
  from c10 have a: "tweet_data example_polarity tweet_partial = Inl (KeyError ''like_count'')"
    by (simp add: tweet_partial_def)
  have b: "snd (process_tweets example_polarity [tweet_full, tweet_partial, tweet_bare])
     = Inl (KeyError ''like_count'')"
    by (simp add: process_tweets_def tweet_data_def metric_or_zero_def getitem_def
      analyze_sentiment_eq tweet_full_def tweet_partial_def Let_def)
  from C10_metrics_default [where t = tweet_bare and d = "[]" and rc = 0
      and sc = example_polarity and lc = 0 and tweets = "[]"]
  have c: "\<exists>r. tweet_data example_polarity tweet_bare = Inr (r, - (1 / 16))
        \<and> retweet_count r = 0 \<and> like_count r = 0"
    by (simp add: tweet_bare_def clean_text_map example_polarity_def)
  from a b c show ?thesis by blast
qed

section \<open>Summary reporter\<close>

lemma count_loop_error:
  "count_loop fl rs counts acc = Inl e \<Longrightarrow> \<exists>k. e = KeyError k"
proof (induction rs arbitrary: counts acc)
  case Nil
  then show ?case by simp
next
  case (Cons r rs)
  then show ?case
    by (auto simp: incr_count_def getitem_def split: sum.splits option.splits)
qed

lemma dist_loop_ok:
  "n \<noteq> 0 \<Longrightarrow>
   dist_loop fl counts n =
     Inr (map (\<lambda>(s, c). (s, c, f_mul fl (f_div fl (real c) (real n)) 100,
                           nat (py_int (f_div fl (f_mul fl (f_div fl (real c) (real n)) 100) 5))))
            counts)"
  by (induction fl counts n rule: dist_loop.induct) (simp_all add: truediv_def Let_def)

lemma generate_summary_empty: "generate_summary fl kw [] = Inr [NoResults]"
  by (simp add: generate_summary_def)

lemma generate_summary_no_zero_division:
  "generate_summary fl kw rs \<noteq> Inl ZeroDivisionError"
proof (cases "rs = []")
  case True
  then show ?thesis by (simp add: generate_summary_def)
next
  case False
  then have n: "length rs \<noteq> 0" by simp
  show ?thesis
  proof (cases "count_loop fl rs [(''positive'', 0), (''negative'', 0), (''neutral'', 0)] 0")
    case (Inl e)
    with count_loop_error [OF Inl] False show ?thesis
      by (auto simp: generate_summary_def)
  next
    case (Inr a)
    then show ?thesis
      using False n
      by (cases a) (simp add: generate_summary_def dist_loop_ok truediv_def Let_def)
  qed
qed

lemma incr_count_three:
  assumes "s \<in> {''positive'', ''negative'', ''neutral''}"
  shows "incr_count [(''positive'', a), (''negative'', b), (''neutral'', c)] s =
     Inr [(''positive'', a + (if s = ''positive'' then 1 else 0)),
          (''negative'', b + (if s = ''negative'' then 1 else 0)),
          (''neutral'', c + (if s = ''neutral'' then 1 else 0))]"
  using assms by (auto simp: incr_count_def getitem_def)

lemma count_loop_three:
  assumes "\<forall>r\<in>set rs. sentiment r \<in> {''positive'', ''negative'', ''neutral''}"
  shows "count_loop fl rs [(''positive'', a), (''negative'', b), (''neutral'', c)] acc =
     Inr ([(''positive'', a + label_count ''positive'' rs),
           (''negative'', b + label_count ''negative'' rs),
           (''neutral'', c + label_count ''neutral'' rs)],
          foldl (f_add fl) acc (map polarity_score rs))"
  using assms
proof (induction rs arbitrary: a b c acc)
  case Nil
  then show ?case by (simp add: label_count_def)
next
  case (Cons r rs)
  from Cons.prems have r: "sentiment r \<in> {''positive'', ''negative'', ''neutral''}"
    and rest: "\<forall>r\<in>set rs. sentiment r \<in> {''positive'', ''negative'', ''neutral''}"
    by simp_all
  show ?case
    by (simp add: incr_count_three [OF r] Cons.IH [OF rest] label_count_def)
qed

lemma generate_summary_report:
  assumes "rs \<noteq> []" and "\<forall>r\<in>set rs. sentiment r \<in> {''positive'', ''negative'', ''neutral''}"
  shows "generate_summary fl kw rs = Inr [SummaryReport (report fl kw rs)]"
  using assms(1)
  by (simp add: generate_summary_def count_loop_three [OF assms(2)] dist_loop_ok truediv_def
      report_def share_def mean_polarity_def Let_def)

lemma report_fields:
  "total_tweets (report fl kw rs) = length rs \<and> keyword (report fl kw rs) = kw \<and>
   label_counts (report fl kw rs) =
     [(''positive'', label_count ''positive'' rs), (''negative'', label_count ''negative'' rs),
      (''neutral'', label_count ''neutral'' rs)]"
  by (simp add: report_def label_counts_def share_def)

lemma process_tweets_labels:
  assumes "snd (process_tweets sc tweets) = Inr rs"
  shows "\<forall>r\<in>set rs. sentiment r \<in> {''positive'', ''negative'', ''neutral''}"
proof
  fix r assume "r \<in> set rs"
  from process_tweets_member [OF assms this] obtain t
    where "tweet_data sc t = Inr (r, sc (clean_text (tw_text t)))" by blast
  from tweet_data_fields(4) [OF this] show "sentiment r \<in> {''positive'', ''negative'', ''neutral''}"
    by (simp add: analyze_sentiment_eq)
qed

text \<open>
  Claim C7. \<^verbatim>\<open>generate_summary\<close> on an empty list of records prints only the notice that
  there is nothing to summarise and returns: no report, and none of the divisions of
  lines 160 and 164 is reached. For no list of records does \<^verbatim>\<open>generate_summary\<close> raise
  \<^verbatim>\<open>ZeroDivisionError\<close>. Both hold whatever the float arithmetic computes.
\<close>

theorem C7_summary_guard:
  "generate_summary fl kw ([] :: 'ts analyzed list) = Inr [NoResults] \<and>
   generate_summary fl' kw' (rs :: 'ts analyzed list) \<noteq> Inl ZeroDivisionError"
  by (simp add: generate_summary_empty generate_summary_no_zero_division)

theorem C7_summary_guard_witness:
  "generate_summary exact_arith ''AWS'' ([] :: string analyzed list) = Inr [NoResults] \<and>
   generate_summary exact_arith ''AWS'' example_records \<noteq> Inl ZeroDivisionError"
  using C7_summary_guard [of exact_arith "''AWS''" exact_arith "''AWS''" example_records]
  by simp

section \<open>The pipeline: auxiliary facts\<close>

lemma fetches_process:
  assumes "fetches cfg env tweets"
  shows "\<exists>rs. process_tweets (textblob env) tweets = (fst (process_tweets (textblob env) tweets), Inr rs)
           \<and> rs \<noteq> [] \<and> length rs = length tweets
           \<and> (\<forall>r\<in>set rs. sentiment r \<in> {''positive'', ''negative'', ''neutral''})"
proof -
  from assms have ok: "\<forall>t\<in>set tweets. metrics_ok (tw_public_metrics t)" and ne: "tweets \<noteq> []"
    by (simp_all add: fetches_def list_all_iff)
  from process_tweets_ok [OF ok, of "textblob env"] obtain rs where
    run: "snd (process_tweets (textblob env) tweets) = Inr rs"
    by auto
  from process_tweets_nth(1) [OF run] ne have "rs \<noteq> []" and "length rs = length tweets" by auto
  with run process_tweets_labels [OF run] show ?thesis
    by (metis prod.collapse)
qed

lemma process_loop_lines:
  "\<exists>lines. fst (process_loop sc i ts results out) = out @ lines
        \<and> (\<forall>e\<in>set lines. \<not> is_summary e \<and> \<not> is_upload e)"
proof (induction ts arbitrary: i results out)
  case Nil
  then show ?case by simp
next
  case (Cons t ts)
  show ?case
  proof (cases "tweet_data sc t")
    case (Inl e)
    then show ?thesis by simp
  next
    case (Inr a)
    obtain td p where a: "a = (td, p)" by (cases a)
    from Cons.IH [of "i + 1" "results @ [td]" "out @ [TweetLine i (sentiment td) p]"]
    obtain lines where
      "fst (process_loop sc (i + 1) ts (results @ [td]) (out @ [TweetLine i (sentiment td) p]))
         = (out @ [TweetLine i (sentiment td) p]) @ lines"
      and "\<forall>e\<in>set lines. \<not> is_summary e \<and> \<not> is_upload e"
      by blast
    then show ?thesis
      by (intro exI [of _ "TweetLine i (sentiment td) p # lines"]) (simp add: Inr a)
  qed
qed

lemma process_tweets_lines:
  "\<not> list_ex is_summary (fst (process_tweets sc tweets)) \<and>
   \<not> list_ex is_upload (fst (process_tweets sc tweets))"
  using process_loop_lines [of sc 1 tweets "[]" "[]"]
  by (auto simp: process_tweets_def list_ex_iff)

lemma main_after_fetch:
  assumes "fetches cfg env tweets"
  shows "\<exists>rs. snd (process_tweets (textblob env) tweets) = Inr rs \<and> length rs = length tweets \<and>
     main cfg env w =
       (case save_to_csv (csv_fault env) rs csv_filename w of
          (out4, ok, w4) \<Rightarrow>
            if \<not> ok
            then \<lparr>final = w4,
                  printed = [Connected, Fetched (length tweets)]
                              @ fst (process_tweets (textblob env) tweets) @ out4,
                  outcome = Inr ReturnAfterExport\<rparr>
            else
              (case (if aws_bucket_name cfg \<noteq> ''YOUR_BUCKET_NAME''
                     then (case upload_to_s3 env csv_filename (aws_bucket_name cfg) w4 of
                             (up_out, up_ok, w') \<Rightarrow> (up_out, w'))
                     else ([UploadSkipped], w4)) of
                 (out6, w6) \<Rightarrow>
                   \<lparr>final = w6,
                    printed = [Connected, Fetched (length tweets)]
                                @ fst (process_tweets (textblob env) tweets) @ out4
                                @ [SummaryReport (report (arith env) (search_keyword cfg) rs)] @ out6
                                @ [Complete csv_filename],
                    outcome = Inr ReturnComplete\<rparr>))"
proof -
  from fetches_process [OF assms] obtain rs where
    run0: "process_tweets (textblob env) tweets = (fst (process_tweets (textblob env) tweets), Inr rs)"
    and ne: "rs \<noteq> []" and len: "length rs = length tweets"
    and labels: "\<forall>r\<in>set rs. sentiment r \<in> {''positive'', ''negative'', ''neutral''}"
    by blast
  define lines where "lines = fst (process_tweets (textblob env) tweets)"
  from run0 have run: "process_tweets (textblob env) tweets = (lines, Inr rs)"
    by (simp add: lines_def)
  from assms obtain t ts where tweets: "tweets = t # ts"
    by (cases tweets) (simp_all add: fetches_def)
  from assms have auth: "authenticate_twitter env = ([Connected], Some ())"
    by (simp add: fetches_def authenticate_twitter_def)
  from assms have fetch: "fetch_tweets env () (search_keyword cfg) (tweet_count cfg)
      = ([Fetched (length tweets)], tweets)"
    by (simp add: fetches_def fetch_tweets_def tweets)
  note summary = generate_summary_report [OF ne labels, of "arith env" "search_keyword cfg"]
  have main_eq: "main cfg env w =
       (case save_to_csv (csv_fault env) rs csv_filename w of
          (out4, ok, w4) \<Rightarrow>
            if \<not> ok
            then \<lparr>final = w4,
                  printed = [Connected, Fetched (length tweets)] @ lines @ out4,
                  outcome = Inr ReturnAfterExport\<rparr>
            else
              (case (if aws_bucket_name cfg \<noteq> ''YOUR_BUCKET_NAME''
                     then (case upload_to_s3 env csv_filename (aws_bucket_name cfg) w4 of
                             (up_out, up_ok, w') \<Rightarrow> (up_out, w'))
                     else ([UploadSkipped], w4)) of
                 (out6, w6) \<Rightarrow>
                   \<lparr>final = w6,
                    printed = [Connected, Fetched (length tweets)] @ lines @ out4
                                @ [SummaryReport (report (arith env) (search_keyword cfg) rs)] @ out6
                                @ [Complete csv_filename],
                    outcome = Inr ReturnComplete\<rparr>))"
  proof -
    from tweets have nonempty: "(tweets = []) = False" by simp
    show ?thesis
      by (simp only: main_def auth fetch run summary nonempty Let_def split_conv option.case
          sum.case if_False)
        (simp split: prod.splits)
  qed
  from run have "snd (process_tweets (textblob env) tweets) = Inr rs" by simp
  with len main_eq show ?thesis unfolding lines_def by blast
qed

lemma generate_summary_output:
  "generate_summary fl kw rs = Inr out5 \<Longrightarrow> \<not> list_ex is_upload out5"
  by (auto simp: generate_summary_def Let_def split: if_splits sum.splits prod.splits)

lemma save_to_csv_output:
  "save_to_csv fault rs filename w = (out4, ok, w4) \<Longrightarrow>
     \<not> list_ex is_upload out4 \<and> \<not> list_ex is_summary out4 \<and> s3 w4 = s3 w"
  by (auto simp: save_to_csv_def Let_def split: io_fault.splits)

lemma unconfigured_never_publishes:
  assumes "aws_bucket_name cfg = ''YOUR_BUCKET_NAME''"
  shows "\<not> publish_attempted (printed (main cfg env w))"
proof -
  note lines = process_tweets_lines
    [of "textblob env" "snd (fetch_tweets env () (search_keyword cfg) (tweet_count cfg))"]
  have fetch: "\<not> list_ex is_upload (fst (fetch_tweets env c kw n))" for c kw n
    by (simp add: fetch_tweets_def Let_def split: sum.splits option.splits list.splits)
  show ?thesis
    using assms lines fetch [of "()" "search_keyword cfg" "tweet_count cfg"]
    by (auto simp: publish_attempted_def main_def authenticate_twitter_def Let_def
        split: prod.splits sum.splits option.splits if_splits
        dest: generate_summary_output save_to_csv_output)
qed

lemma main_export_fails:
  assumes "fetches cfg env tweets" and "csv_fault env \<noteq> NoFault"
  shows "printed (main cfg env w) =
           [Connected, Fetched (length tweets)] @ fst (process_tweets (textblob env) tweets)
             @ [SaveError]
         \<and> outcome (main cfg env w) = Inr ReturnAfterExport
         \<and> s3 (final (main cfg env w)) = s3 w"
  using main_after_fetch [OF assms(1), of w] assms(2)
  by (cases "csv_fault env") (auto simp: save_to_csv_def Let_def)

lemma main_completes:
  assumes "fetches cfg env tweets" and "csv_fault env = NoFault"
  shows "\<exists>rs. snd (process_tweets (textblob env) tweets) = Inr rs \<and> length rs = length tweets \<and>
     main cfg env w =
       (case (if aws_bucket_name cfg \<noteq> ''YOUR_BUCKET_NAME''
              then (case upload_to_s3 env csv_filename (aws_bucket_name cfg)
                           (w\<lparr>files := (files w)(csv_filename \<mapsto>
                                 map StrCell headers # map writerow rs)\<rparr>) of
                      (up_out, up_ok, w') \<Rightarrow> (up_out, w'))
              else ([UploadSkipped],
                    w\<lparr>files := (files w)(csv_filename \<mapsto>
                          map StrCell headers # map writerow rs)\<rparr>)) of
          (out6, w6) \<Rightarrow>
            \<lparr>final = w6,
             printed = [Connected, Fetched (length tweets)]
                         @ fst (process_tweets (textblob env) tweets)
                         @ [Saved csv_filename, SummaryReport (report (arith env) (search_keyword cfg) rs)]
                         @ out6 @ [Complete csv_filename],
             outcome = Inr ReturnComplete\<rparr>)"
  using main_after_fetch [OF assms(1), of w] assms(2)
  by (auto simp: save_to_csv_def Let_def)

lemma upload_to_s3_cases:
  "upload_to_s3 env filename bucket (w\<lparr>files := (files w)(filename \<mapsto> content)\<rparr>) =
     (if s3_raises env then ([UploadError], False, w\<lparr>files := (files w)(filename \<mapsto> content)\<rparr>)
      else ([Uploaded bucket (''sentiment_analysis/'' @ now_stamp env @ ''_'' @ filename)], True,
            w\<lparr>files := (files w)(filename \<mapsto> content),
              s3 := (s3 w)((bucket, ''sentiment_analysis/'' @ now_stamp env @ ''_'' @ filename)
                              \<mapsto> content)\<rparr>))"
  by (simp add: upload_to_s3_def Let_def)

lemma example_fetches: "fetches default_config example_env [tweet_full, tweet_bare]"
  by (simp add: fetches_def default_config_def example_env_def example_search_def
      metrics_ok_def tweet_full_def tweet_bare_def)

lemma example_fetches_configured: "fetches example_config example_env [tweet_full, tweet_bare]"
  by (simp add: fetches_def example_config_def default_config_def example_env_def
      example_search_def metrics_ok_def tweet_full_def tweet_bare_def)

lemma fetches_csv_fault [simp]:
  "fetches cfg (env\<lparr>csv_fault := f\<rparr>) tweets = fetches cfg env tweets"
  by (simp add: fetches_def)

lemma fetches_s3_raises [simp]:
  "fetches cfg (env\<lparr>s3_raises := b\<rparr>) tweets = fetches cfg env tweets"
  by (simp add: fetches_def)

section \<open>Properties of the pipeline\<close>

text \<open>
  The statement "the summary is produced whether or not the export succeeds" fails on a run
  in which \<^verbatim>\<open>open\<close> raises: \<^verbatim>\<open>save_to_csv\<close> returns \<^verbatim>\<open>False\<close> and line 202 returns from
  \<^verbatim>\<open>main\<close> before line 205 is reached.
\<close>

theorem C3_export_failure_counterexample:
  "printed (main default_config (example_env\<lparr>csv_fault := OpenFails\<rparr>) empty_world) =
     [Connected, Fetched 2, TweetLine 1 ''positive'' (4 / 5), TweetLine 2 ''negative'' (- (1 / 16)),
      SaveError] \<and>
   outcome (main default_config (example_env\<lparr>csv_fault := OpenFails\<rparr>) empty_world)
     = Inr ReturnAfterExport \<and>
   \<not> summary_printed (printed (main default_config (example_env\<lparr>csv_fault := OpenFails\<rparr>) empty_world))"
proof -
  have f: "fetches default_config (example_env\<lparr>csv_fault := OpenFails\<rparr>) [tweet_full, tweet_bare]"
    by (simp add: example_fetches)
  have t: "textblob (example_env\<lparr>csv_fault := OpenFails\<rparr>) = example_polarity"
    by (simp add: example_env_def)
  from main_export_fails [OF f, of empty_world]
  show ?thesis
    by (simp add: t example_run summary_printed_def)
qed

text \<open>
  Claim C3, amended. For every run that reaches the assembly stage and in which assembly
  does not raise, the summary report is produced from the assembled records if and only
  if the export stage succeeds, whatever the publish stage does afterwards; an export
  failure ends the run before the summary is generated. The report that is printed is the
  one \<^verbatim>\<open>generate_summary\<close> makes of the assembled records: its total is the number of
  posts, its keyword the configured one, and its three counts are the numbers of records
  with each label.
\<close>

theorem C3_summary_after_export:
  assumes "fetches cfg env tweets"
  shows "\<exists>rs. snd (process_tweets (textblob env) tweets) = Inr rs \<and> length rs = length tweets \<and>
     (csv_fault env = NoFault \<longrightarrow>
        (\<exists>s. generate_summary (arith env) (search_keyword cfg) rs = Inr [SummaryReport s] \<and>
             SummaryReport s \<in> set (printed (main cfg env w)) \<and>
             total_tweets s = length tweets \<and>
             keyword s = search_keyword cfg \<and>
             label_counts s =
               [(''positive'', label_count ''positive'' rs),
                (''negative'', label_count ''negative'' rs),
                (''neutral'', label_count ''neutral'' rs)]) \<and>
        summary_printed (printed (main cfg env w)) \<and>
        outcome (main cfg env w) = Inr ReturnComplete) \<and>
     (csv_fault env \<noteq> NoFault \<longrightarrow>
        \<not> summary_printed (printed (main cfg env w)) \<and>
        outcome (main cfg env w) = Inr ReturnAfterExport)"
proof -
  from fetches_process [OF assms] obtain rs where
    run: "snd (process_tweets (textblob env) tweets) = Inr rs"
    and ne: "rs \<noteq> []" and len: "length rs = length tweets"
    and labels: "\<forall>r\<in>set rs. sentiment r \<in> {''positive'', ''negative'', ''neutral''}"
    by (metis snd_conv)
  define s where "s = report (arith env) (search_keyword cfg) rs"
  have summary: "generate_summary (arith env) (search_keyword cfg) rs = Inr [SummaryReport s]"
    unfolding s_def by (rule generate_summary_report [OF ne labels])
  have fields: "total_tweets s = length tweets \<and> keyword s = search_keyword cfg \<and>
      label_counts s =
        [(''positive'', label_count ''positive'' rs),
         (''negative'', label_count ''negative'' rs),
         (''neutral'', label_count ''neutral'' rs)]"
    unfolding s_def using report_fields [of "arith env" "search_keyword cfg" rs] len by simp
  have good: "SummaryReport s \<in> set (printed (main cfg env w)) \<and>
        summary_printed (printed (main cfg env w)) \<and>
        outcome (main cfg env w) = Inr ReturnComplete"
    if ok: "csv_fault env = NoFault"
  proof -
    from main_completes [OF assms ok, of w] run
    show ?thesis
      by (auto simp: s_def summary_printed_def list_ex_iff split: prod.splits)
  qed
  have bad: "\<not> summary_printed (printed (main cfg env w)) \<and>
        outcome (main cfg env w) = Inr ReturnAfterExport"
    if "csv_fault env \<noteq> NoFault"
    using main_export_fails [OF assms that, of w] process_tweets_lines [of "textblob env" tweets]
    by (simp add: summary_printed_def)
  from run len summary fields good bad show ?thesis by blast
qed

theorem C3_summary_after_export_witness:
  "summary_printed
     (printed (main example_config (example_env\<lparr>s3_raises := True\<rparr>) empty_world)) \<and>
   \<not> summary_printed
     (printed (main example_config (example_env\<lparr>csv_fault := WriteFailsAfter 1\<rparr>) empty_world))"
proof -
  have f1: "fetches example_config (example_env\<lparr>s3_raises := True\<rparr>) [tweet_full, tweet_bare]"
    by (simp add: example_fetches_configured)
  have f2: "fetches example_config (example_env\<lparr>csv_fault := WriteFailsAfter 1\<rparr>)
      [tweet_full, tweet_bare]"
    by (simp add: example_fetches_configured)
  from C3_summary_after_export [OF f1, of empty_world]
  have a: "summary_printed
     (printed (main example_config (example_env\<lparr>s3_raises := True\<rparr>) empty_world))"
    by (auto simp: example_env_def)
  from C3_summary_after_export [OF f2, of empty_world]
  have b: "\<not> summary_printed
     (printed (main example_config (example_env\<lparr>csv_fault := WriteFailsAfter 1\<rparr>) empty_world))"
    by (auto simp: example_env_def)
  from a b show ?thesis by blast
qed

text \<open>
  Claim C4. If the provider returns no posts (\<^verbatim>\<open>tweets.data\<close> is \<^verbatim>\<open>None\<close> or empty),
  \<^verbatim>\<open>fetch_tweets\<close> returns the empty list and not an error, and \<^verbatim>\<open>main\<close> returns
  normally before the export stage (at line 192, or at line 186 when no client could be
  built): no file is written, nothing is uploaded, no summary is printed and no exception
  escapes.
\<close>

theorem C4_empty_fetch:
  assumes "search_recent_tweets env (search_keyword cfg @ '' lang:en -is:retweet'') (tweet_count cfg)
             = Inr None
           \<or> search_recent_tweets env (search_keyword cfg @ '' lang:en -is:retweet'') (tweet_count cfg)
             = Inr (Some [])"
  shows "fetch_tweets env c (search_keyword cfg) (tweet_count cfg) = ([NoTweetsFound], []) \<and>
         final (main cfg env w) = w \<and>
         printed (main cfg env w)
           = (if client_raises env then [ConnectError] else [Connected, NoTweetsFound]) \<and>
         outcome (main cfg env w)
           = Inr (if client_raises env then ReturnAfterAuth else ReturnAfterFetch) \<and>
         \<not> summary_printed (printed (main cfg env w)) \<and>
         \<not> publish_attempted (printed (main cfg env w))"
proof -
  from assms have fetch: "fetch_tweets env c (search_keyword cfg) (tweet_count cfg)
      = ([NoTweetsFound], [])" for c
    by (auto simp: fetch_tweets_def Let_def)
  show ?thesis
    by (simp add: fetch main_def authenticate_twitter_def summary_printed_def
        publish_attempted_def Let_def)
qed

theorem C4_empty_fetch_witness:
  "final (main (default_config\<lparr>search_keyword := ''Azure''\<rparr>) example_env empty_world) = empty_world \<and>
   printed (main (default_config\<lparr>search_keyword := ''Azure''\<rparr>) example_env empty_world)
     = [Connected, NoTweetsFound] \<and>
   outcome (main (default_config\<lparr>search_keyword := ''Azure''\<rparr>) example_env empty_world)
     = Inr ReturnAfterFetch"
proof -
  have "search_recent_tweets example_env
          (search_keyword (default_config\<lparr>search_keyword := ''Azure''\<rparr>) @ '' lang:en -is:retweet'')
          (tweet_count (default_config\<lparr>search_keyword := ''Azure''\<rparr>)) = Inr None
      \<or> search_recent_tweets example_env
          (search_keyword (default_config\<lparr>search_keyword := ''Azure''\<rparr>) @ '' lang:en -is:retweet'')
          (tweet_count (default_config\<lparr>search_keyword := ''Azure''\<rparr>)) = Inr (Some [])"
    by (simp add: example_env_def example_search_def default_config_def)
  from C4_empty_fetch [OF this, of "()" empty_world]
  show ?thesis by (simp add: example_env_def)
qed

text \<open>
  Claim C5. In no run does the publish stage execute with the bucket left at its
  placeholder \<^verbatim>\<open>YOUR_BUCKET_NAME\<close>. In every run whose export succeeded, the publish
  stage executes if and only if the bucket differs from the placeholder; the run completes
  normally and the exported file is on disk; and with the bucket at the placeholder the
  publish stage is skipped with a notice and nothing is uploaded.
\<close>

theorem C5_publish_gate:
  "(publish_attempted (printed (main cfg env w)) \<longrightarrow>
      aws_bucket_name cfg \<noteq> ''YOUR_BUCKET_NAME'') \<and>
   (fetches cfg env tweets \<and> csv_fault env = NoFault \<longrightarrow>
      (publish_attempted (printed (main cfg env w)) \<longleftrightarrow>
         aws_bucket_name cfg \<noteq> ''YOUR_BUCKET_NAME'') \<and>
      (\<exists>rs. snd (process_tweets (textblob env) tweets) = Inr rs \<and>
         files (final (main cfg env w)) csv_filename
           = Some (map StrCell headers # map writerow rs)) \<and>
      outcome (main cfg env w) = Inr ReturnComplete \<and>
      last (printed (main cfg env w)) = Complete csv_filename \<and>
      (aws_bucket_name cfg = ''YOUR_BUCKET_NAME'' \<longrightarrow>
         UploadSkipped \<in> set (printed (main cfg env w)) \<and>
         s3 (final (main cfg env w)) = s3 w))"
proof -
  have only: "publish_attempted (printed (main cfg env w)) \<longrightarrow>
      aws_bucket_name cfg \<noteq> ''YOUR_BUCKET_NAME''"
    using unconfigured_never_publishes [of cfg env w] by blast
  have gate: "(publish_attempted (printed (main cfg env w)) \<longleftrightarrow>
         aws_bucket_name cfg \<noteq> ''YOUR_BUCKET_NAME'') \<and>
      (\<exists>rs. snd (process_tweets (textblob env) tweets) = Inr rs \<and>
         files (final (main cfg env w)) csv_filename
           = Some (map StrCell headers # map writerow rs)) \<and>
      outcome (main cfg env w) = Inr ReturnComplete \<and>
      last (printed (main cfg env w)) = Complete csv_filename \<and>
      (aws_bucket_name cfg = ''YOUR_BUCKET_NAME'' \<longrightarrow>
         UploadSkipped \<in> set (printed (main cfg env w)) \<and>
         s3 (final (main cfg env w)) = s3 w)"
    if f: "fetches cfg env tweets" and ok: "csv_fault env = NoFault"
  proof -
    from main_completes [OF f ok, of w] obtain rs where
      run: "snd (process_tweets (textblob env) tweets) = Inr rs"
      and m: "main cfg env w =
       (case (if aws_bucket_name cfg \<noteq> ''YOUR_BUCKET_NAME''
              then (case upload_to_s3 env csv_filename (aws_bucket_name cfg)
                           (w\<lparr>files := (files w)(csv_filename \<mapsto>
                                 map StrCell headers # map writerow rs)\<rparr>) of
                      (up_out, up_ok, w') \<Rightarrow> (up_out, w'))
              else ([UploadSkipped],
                    w\<lparr>files := (files w)(csv_filename \<mapsto>
                          map StrCell headers # map writerow rs)\<rparr>)) of
          (out6, w6) \<Rightarrow>
            \<lparr>final = w6,
             printed = [Connected, Fetched (length tweets)]
                         @ fst (process_tweets (textblob env) tweets)
                         @ [Saved csv_filename, SummaryReport (report (arith env) (search_keyword cfg) rs)]
                         @ out6 @ [Complete csv_filename],
             outcome = Inr ReturnComplete\<rparr>)"
      by blast
    note lines = process_tweets_lines [of "textblob env" tweets]
    show ?thesis
    proof (cases "aws_bucket_name cfg = ''YOUR_BUCKET_NAME''")
      case True
      with m run lines show ?thesis
        by (auto simp: publish_attempted_def)
    next
      case False
      with m run lines show ?thesis
        by (auto simp: publish_attempted_def upload_to_s3_cases)
    qed
  qed
  from only gate show ?thesis by blast
qed

theorem C5_publish_gate_witness:
  "\<not> publish_attempted (printed (main default_config example_env empty_world)) \<and>
   publish_attempted (printed (main example_config example_env empty_world)) \<and>
   outcome (main default_config example_env empty_world) = Inr ReturnComplete \<and>
   UploadSkipped \<in> set (printed (main default_config example_env empty_world)) \<and>
   files (final (main default_config example_env empty_world)) csv_filename = Some example_csv"
proof -
  have ok: "csv_fault example_env = NoFault" by (simp add: example_env_def)
  have run: "snd (process_tweets (textblob example_env) [tweet_full, tweet_bare]) = Inr example_records"
    by (simp add: example_env_def example_run)
  from C5_publish_gate [of default_config example_env empty_world "[tweet_full, tweet_bare]"]
    example_fetches ok run
  have a: "\<not> publish_attempted (printed (main default_config example_env empty_world)) \<and>
   outcome (main default_config example_env empty_world) = Inr ReturnComplete \<and>
   UploadSkipped \<in> set (printed (main default_config example_env empty_world)) \<and>
   files (final (main default_config example_env empty_world)) csv_filename = Some example_csv"
    by (simp add: default_config_def example_csv_def)
  from C5_publish_gate [of example_config example_env empty_world "[tweet_full, tweet_bare]"]
    example_fetches_configured ok
  have b: "publish_attempted (printed (main example_config example_env empty_world))"
    by (simp add: example_config_def default_config_def)
  from a b show ?thesis by blast
qed

text \<open>
  Claim C6. In every run whose export succeeded, with the bucket configured and the upload
  raising, \<^verbatim>\<open>upload_to_s3\<close> catches the exception, reports it and returns \<^verbatim>\<open>False\<close> without
  changing anything; \<^verbatim>\<open>main\<close> goes on to its completion message and returns normally,
  the exported file still on disk. The run prints, after the lines of the posts, the
  notice of the saved file, a summary report of all posts, the upload error and the
  completion message.
\<close>

theorem C6_publish_failure_not_fatal:
  assumes "fetches cfg env tweets" and "csv_fault env = NoFault"
    and "aws_bucket_name cfg \<noteq> ''YOUR_BUCKET_NAME''" and "s3_raises env"
  shows "\<exists>rs s. snd (process_tweets (textblob env) tweets) = Inr rs \<and>
     total_tweets s = length tweets \<and>
     upload_to_s3 env csv_filename (aws_bucket_name cfg)
         (w\<lparr>files := (files w)(csv_filename \<mapsto> map StrCell headers # map writerow rs)\<rparr>)
       = ([UploadError], False,
          w\<lparr>files := (files w)(csv_filename \<mapsto> map StrCell headers # map writerow rs)\<rparr>) \<and>
     main cfg env w =
       \<lparr>final = w\<lparr>files := (files w)(csv_filename \<mapsto> map StrCell headers # map writerow rs)\<rparr>,
        printed = [Connected, Fetched (length tweets)]
                    @ fst (process_tweets (textblob env) tweets)
                    @ [Saved csv_filename, SummaryReport s, UploadError, Complete csv_filename],
        outcome = Inr ReturnComplete\<rparr>"
proof -
  from main_completes [OF assms(1,2), of w] obtain rs where
    run: "snd (process_tweets (textblob env) tweets) = Inr rs"
    and len: "length rs = length tweets"
    and m: "main cfg env w =
       (case (if aws_bucket_name cfg \<noteq> ''YOUR_BUCKET_NAME''
              then (case upload_to_s3 env csv_filename (aws_bucket_name cfg)
                           (w\<lparr>files := (files w)(csv_filename \<mapsto>
                                 map StrCell headers # map writerow rs)\<rparr>) of
                      (up_out, up_ok, w') \<Rightarrow> (up_out, w'))
              else ([UploadSkipped],
                    w\<lparr>files := (files w)(csv_filename \<mapsto>
                          map StrCell headers # map writerow rs)\<rparr>)) of
          (out6, w6) \<Rightarrow>
            \<lparr>final = w6,
             printed = [Connected, Fetched (length tweets)]
                         @ fst (process_tweets (textblob env) tweets)
                         @ [Saved csv_filename,
                            SummaryReport (report (arith env) (search_keyword cfg) rs)]
                         @ out6 @ [Complete csv_filename],
             outcome = Inr ReturnComplete\<rparr>)"
    by blast
  have up: "upload_to_s3 env csv_filename (aws_bucket_name cfg)
         (w\<lparr>files := (files w)(csv_filename \<mapsto> map StrCell headers # map writerow rs)\<rparr>)
       = ([UploadError], False,
          w\<lparr>files := (files w)(csv_filename \<mapsto> map StrCell headers # map writerow rs)\<rparr>)"
    using assms(4) by (simp add: upload_to_s3_cases)
  have total: "total_tweets (report (arith env) (search_keyword cfg) rs) = length tweets"
    using report_fields [of "arith env" "search_keyword cfg" rs] len by simp
  from m assms(3) have "main cfg env w =
       \<lparr>final = w\<lparr>files := (files w)(csv_filename \<mapsto> map StrCell headers # map writerow rs)\<rparr>,
        printed = [Connected, Fetched (length tweets)]
                    @ fst (process_tweets (textblob env) tweets)
                    @ [Saved csv_filename,
                       SummaryReport (report (arith env) (search_keyword cfg) rs),
                       UploadError, Complete csv_filename],
        outcome = Inr ReturnComplete\<rparr>"
    by (simp add: up)
  with run total up show ?thesis by blast
qed

theorem C6_publish_failure_not_fatal_witness:
  "final (main example_config (example_env\<lparr>s3_raises := True\<rparr>) empty_world)
     = empty_world\<lparr>files := (files empty_world)(csv_filename \<mapsto> example_csv)\<rparr> \<and>
   UploadError \<in> set (printed (main example_config (example_env\<lparr>s3_raises := True\<rparr>) empty_world)) \<and>
   last (printed (main example_config (example_env\<lparr>s3_raises := True\<rparr>) empty_world))
     = Complete csv_filename \<and>
   outcome (main example_config (example_env\<lparr>s3_raises := True\<rparr>) empty_world)
     = Inr ReturnComplete"
proof -
  have f: "fetches example_config (example_env\<lparr>s3_raises := True\<rparr>) [tweet_full, tweet_bare]"
    by (simp add: example_fetches_configured)
  have ok: "csv_fault (example_env\<lparr>s3_raises := True\<rparr>) = NoFault"
    by (simp add: example_env_def)
  have b: "aws_bucket_name example_config \<noteq> ''YOUR_BUCKET_NAME''"
    by (simp add: example_config_def)
  have r: "s3_raises (example_env\<lparr>s3_raises := True\<rparr>)" by simp
  have t: "textblob (example_env\<lparr>s3_raises := True\<rparr>) = example_polarity"
    by (simp add: example_env_def)
  from C6_publish_failure_not_fatal [OF f ok b r, of empty_world]
  show ?thesis
    by (auto simp: t example_run example_csv_def)
qed

end
